theory Spec2Isabelle
  imports Main "HOL-Library.Word"
begin

section \<open>The points ledger of the content backend\<close>

text \<open>
  The development embeds the claim controller (\<^verbatim>\<open>createClaim\<close>, \<^verbatim>\<open>updateClaim\<close>), the
  \<^verbatim>\<open>User\<close> and \<^verbatim>\<open>Claim\<close> schemas, and the point credit and debit that the content
  controllers perform on creation and deletion of an entry. Requests are handled one
  after the other: every handler takes the store and returns its response together
  with the store it leaves behind, also when it fails half way.

  Conventions of the embedding:
  \<^item> a collection is the list of its documents and the id of a document is its
    position; documents of the two collections are never removed by the handlers
    modelled here;
  \<^item> JavaScript numbers that the ledger stores (\<^verbatim>\<open>points\<close>, \<^verbatim>\<open>amount\<close>,
    \<^verbatim>\<open>totalEarnings\<close>) only ever hold integers and are modelled as \<^typ>\<open>int\<close>; the
    \<^verbatim>\<open>points\<close> field of a request body is an integer;
  \<^item> a string field of a request body that the handlers only compare, test for
    emptiness or store as it is (\<^verbatim>\<open>status\<close>, \<^verbatim>\<open>paymentMethod\<close>,
    \<^verbatim>\<open>transactionId\<close>, \<^verbatim>\<open>notes\<close>) is a \<^typ>\<open>string\<close>; where the handler tests
    the field for truthiness it is a \<^typ>\<open>string option\<close>, \<open>None\<close> being an absent
    field. \<^verbatim>\<open>paymentDetails\<close>, which the schema trims, is the list of the UTF-16
    code units of the JavaScript string;
  \<^item> \<^verbatim>\<open>save()\<close> and \<^verbatim>\<open>create()\<close> run the validators of the schema and throw when one
    fails; the \<^verbatim>\<open>catch\<close> block of the handler turns that into a 500 response.
    Failures of the database connection are outside the model;
  \<^item> a handler is entered with the id of the acting user, as \<^verbatim>\<open>protect\<close> has
    established it; tokens and the approval of accounts are outside the model.
\<close>

subsection \<open>Documents\<close>

type_synonym uid = nat
type_synonym cid = nat

text \<open>A JavaScript string as the sequence of its UTF-16 code units.\<close>

type_synonym js_string = "16 word list"

text \<open>The \<^verbatim>\<open>role\<close> enum of the user schema.\<close>

datatype role =
  super_admin | resource_poster | job_poster | blog_poster
  | tech_blog_poster | digital_product_poster | others

text \<open>
  The ledger fields of a user document. \<^verbatim>\<open>claimedMilestones\<close> is an option because
  both handlers test the array for truthiness before using it; an empty array is
  truthy in JavaScript and is \<open>Some []\<close> here.
\<close>

record user_doc =
  role :: role
  points :: int
  totalEarnings :: int
  claimedMilestones :: "int list option"

text \<open>The \<^verbatim>\<open>status\<close> enum of the claim schema.\<close>

datatype claim_status = Pending | Processing | Paid | Rejected

text \<open>
  A claim document. The fields carry the prefix \<open>c_\<close> since \<^verbatim>\<open>user\<close> and
  \<^verbatim>\<open>points\<close> name other things already.
\<close>

record claim_doc =
  c_user :: uid
  c_points :: int
  c_amount :: int
  c_paymentMethod :: string
  c_paymentDetails :: js_string
  c_status :: claim_status
  c_transactionId :: string
  c_notes :: string
  c_processedBy :: "uid option"
  c_processedAt :: "nat option"

record store =
  users :: "user_doc list"
  claims :: "claim_doc list"

text \<open>
  The outcomes other than success. The source answers with a status code and a
  message; the names are those of the specification:
  \<^item> \<open>InvalidMilestone\<close>: 400, \<^verbatim>\<open>Invalid milestone. Valid milestones are ...\<close>
  \<^item> \<open>AlreadyClaimed\<close>: 400, \<^verbatim>\<open>You have already claimed the ... points milestone\<close>
  \<^item> \<open>InsufficientBalance\<close>: 400, \<^verbatim>\<open>Insufficient points\<close>
  \<^item> \<open>ClaimAlreadyPending\<close>: 400, \<^verbatim>\<open>You already have a pending claim\<close>
  \<^item> \<open>ClaimNotFound\<close>: 404, \<^verbatim>\<open>Claim not found\<close>
  \<^item> \<open>InternalFailure\<close>: 500, the \<^verbatim>\<open>catch\<close> block
  \<^item> \<open>Unauthorized\<close>: 401 of the \<^verbatim>\<open>protect\<close> middleware
  \<^item> \<open>Forbidden\<close>: 403 of an ownership check
  \<^item> \<open>EntryNotFound\<close>: 404 of a content controller
\<close>

datatype error =
  InvalidMilestone | AlreadyClaimed | InsufficientBalance | ClaimAlreadyPending
  | ClaimNotFound | InternalFailure | Unauthorized | Forbidden | EntryNotFound

subsection \<open>Store and schema helpers\<close>

text \<open>\<^verbatim>\<open>Model.findById\<close>: the document, or \<^verbatim>\<open>null\<close>.\<close>

definition findById :: "'a list \<Rightarrow> nat \<Rightarrow> 'a option" where
  "findById docs i = (if i < length docs then Some (docs ! i) else None)"

text \<open>
  \<^verbatim>\<open>user.save()\<close>. The user schema declares \<^verbatim>\<open>points: { min: 0 }\<close>; the other
  validated paths are not written by the ledger and stay valid.
\<close>

definition save_user :: "store \<Rightarrow> uid \<Rightarrow> user_doc \<Rightarrow> store option" where
  "save_user st i u =
     (if points u < 0 then None else Some (st\<lparr>users := (users st)[i := u]\<rparr>))"

text \<open>
  The code units that \<^verbatim>\<open>String.prototype.trim\<close> strips, which the \<^verbatim>\<open>trim: true\<close>
  of the schema applies: the white space of ECMAScript (TAB, VT, FF, the byte order
  mark U+FEFF and the space separators U+0020, U+00A0, U+1680, U+2000 to U+200A,
  U+202F, U+205F, U+3000) and its line terminators (LF, CR, U+2028, U+2029). All of
  them are single code units.
\<close>

definition is_space :: "16 word \<Rightarrow> bool" where
  "is_space c =
     (c \<in> set [0x09, 0x0A, 0x0B, 0x0C, 0x0D, 0x20, 0xA0, 0x1680,
               0x2028, 0x2029, 0x202F, 0x205F, 0x3000, 0xFEFF]
      \<or> (0x2000 \<le> c \<and> c \<le> 0x200A))"

definition trim :: "js_string \<Rightarrow> js_string" where
  "trim s = rev (dropWhile is_space (rev (dropWhile is_space s)))"

text \<open>
  \<^verbatim>\<open>Claim.create\<close> with the validators of the claim schema: the enums of
  \<^verbatim>\<open>points\<close>, \<^verbatim>\<open>amount\<close> and \<^verbatim>\<open>paymentMethod\<close>, and the required, trimmed
  \<^verbatim>\<open>paymentDetails\<close>. The other fields take their defaults.
\<close>

definition Claim_create ::
  "claim_doc list \<Rightarrow> uid \<Rightarrow> int \<Rightarrow> int \<Rightarrow> string \<Rightarrow> js_string \<Rightarrow> (cid \<times> claim_doc list) option" where
  "Claim_create cs u p amount paymentMethod paymentDetails =
     (if p \<in> set [10, 25, 50, 100] \<and> amount \<in> set [15, 30, 60, 120]
         \<and> paymentMethod \<in> set [''upi'', ''phone''] \<and> trim paymentDetails \<noteq> []
      then Some (length cs,
        cs @ [\<lparr>c_user = u, c_points = p, c_amount = amount,
               c_paymentMethod = paymentMethod, c_paymentDetails = trim paymentDetails,
               c_status = Pending, c_transactionId = [], c_notes = [],
               c_processedBy = None, c_processedAt = None\<rparr>])
      else None)"

text \<open>\<^verbatim>\<open>Claim.findOne({ user: req.user.id, status: 'pending' })\<close>.\<close>

definition findOnePending :: "claim_doc list \<Rightarrow> uid \<Rightarrow> claim_doc option" where
  "findOnePending cs u = find (\<lambda>c. c_user c = u \<and> c_status c = Pending) cs"

subsection \<open>createClaim\<close>

text \<open>
  The table of the handler. All its values are truthy, so
  \<^verbatim>\<open>!validMilestones[points]\<close> holds exactly for the keys that are missing.
\<close>

definition validMilestones :: "int \<Rightarrow> int option" where
  "validMilestones p =
     (if p = 10 then Some 15 else if p = 25 then Some 30
      else if p = 50 then Some 60 else if p = 100 then Some 120 else None)"

text \<open>\<^verbatim>\<open>user.claimedMilestones && user.claimedMilestones.includes(points)\<close>.\<close>

definition includes_ms :: "int list option \<Rightarrow> int \<Rightarrow> bool" where
  "includes_ms ms p = (case ms of None \<Rightarrow> False | Some xs \<Rightarrow> p \<in> set xs)"

text \<open>
  \<^verbatim>\<open>if (!user.claimedMilestones) user.claimedMilestones = [];
  user.claimedMilestones.push(points)\<close>.
\<close>

definition push_ms :: "int list option \<Rightarrow> int \<Rightarrow> int list option" where
  "push_ms ms p = Some ((case ms of None \<Rightarrow> [] | Some xs \<Rightarrow> xs) @ [p])"

text \<open>
  The handler of \<^verbatim>\<open>POST /api/claims\<close>, for the authenticated user \<open>u\<close>. A user
  document that is missing makes \<^verbatim>\<open>user.claimedMilestones\<close> throw. On success the
  response carries the new claim, here its id.
\<close>

definition createClaim ::
  "store \<Rightarrow> uid \<Rightarrow> int \<Rightarrow> string \<Rightarrow> js_string \<Rightarrow> (error + cid) \<times> store" where
  "createClaim st u p paymentMethod paymentDetails =
     (case validMilestones p of
        None \<Rightarrow> (Inl InvalidMilestone, st)
      | Some amount \<Rightarrow>
        (case findById (users st) u of
           None \<Rightarrow> (Inl InternalFailure, st)
         | Some user \<Rightarrow>
           if includes_ms (claimedMilestones user) p then (Inl AlreadyClaimed, st)
           else if points user < p then (Inl InsufficientBalance, st)
           else
             (case findOnePending (claims st) u of
                Some pendingClaim \<Rightarrow> (Inl ClaimAlreadyPending, st)
              | None \<Rightarrow>
                (case Claim_create (claims st) u p amount paymentMethod paymentDetails of
                   None \<Rightarrow> (Inl InternalFailure, st)
                 | Some (i, cs) \<Rightarrow>
                   let st1 = st\<lparr>claims := cs\<rparr>;
                       user1 = user\<lparr>points := points user - p,
                                    claimedMilestones := push_ms (claimedMilestones user) p\<rparr>
                   in (case save_user st1 u user1 of
                         None \<Rightarrow> (Inl InternalFailure, st1)
                       | Some st2 \<Rightarrow> (Inr i, st2))))))"

subsection \<open>updateClaim\<close>

text \<open>\<^verbatim>\<open>x || y\<close> on a string field of the body: absent and empty are falsy.\<close>

definition falsy :: "string option \<Rightarrow> bool" where
  "falsy x = (case x of None \<Rightarrow> True | Some s \<Rightarrow> s = [])"

definition or_else :: "string option \<Rightarrow> string \<Rightarrow> string" where
  "or_else x d = (case x of None \<Rightarrow> d | Some s \<Rightarrow> if s = [] then d else s)"

text \<open>The enum validator of \<^verbatim>\<open>status\<close>, as a parser into the stored type.\<close>

definition status_of_string :: "string \<Rightarrow> claim_status option" where
  "status_of_string s =
     (if s = ''pending'' then Some Pending
      else if s = ''processing'' then Some Processing
      else if s = ''paid'' then Some Paid
      else if s = ''rejected'' then Some Rejected
      else None)"

text \<open>
  \<^verbatim>\<open>claim.status = status || claim.status\<close>, followed by the validation that
  \<^verbatim>\<open>claim.save()\<close> runs: \<open>None\<close> when the value is not in the enum.
\<close>

definition assign_status :: "string option \<Rightarrow> claim_status \<Rightarrow> claim_status option" where
  "assign_status status cur =
     (case status of
        None \<Rightarrow> Some cur
      | Some s \<Rightarrow> if s = [] then Some cur else status_of_string s)"

text \<open>
  \<^verbatim>\<open>user.claimedMilestones.filter(m => m !== claim.points)\<close>, guarded by the
  truthiness test.
\<close>

definition remove_ms :: "int list option \<Rightarrow> int \<Rightarrow> int list option" where
  "remove_ms ms p =
     (case ms of None \<Rightarrow> None | Some xs \<Rightarrow> Some (filter (\<lambda>m. m \<noteq> p) xs))"

text \<open>
  The handler of \<^verbatim>\<open>PUT /api/claims/:id\<close>, called by \<open>processor\<close> at time \<open>now\<close>.
  The claim is saved before the owner is touched, so a failure in the second half
  leaves the claim updated. The two tests \<^verbatim>\<open>status === 'paid'\<close> and
  \<^verbatim>\<open>status === 'rejected'\<close> exclude each other and are chained here. On success the
  response carries the claim as read back from the store.
\<close>

definition updateClaim ::
  "store \<Rightarrow> cid \<Rightarrow> string option \<Rightarrow> string option \<Rightarrow> string option \<Rightarrow> uid \<Rightarrow> nat
     \<Rightarrow> (error + claim_doc) \<times> store" where
  "updateClaim st i status transactionId nts processor now =
     (case findById (claims st) i of
        None \<Rightarrow> (Inl ClaimNotFound, st)
      | Some claim \<Rightarrow>
        (case assign_status status (c_status claim) of
           None \<Rightarrow> (Inl InternalFailure, st)
         | Some s \<Rightarrow>
           let claim1 = claim\<lparr>c_status := s,
                               c_transactionId := or_else transactionId (c_transactionId claim),
                               c_notes := or_else nts (c_notes claim),
                               c_processedBy := Some processor,
                               c_processedAt := Some now\<rparr>;
               st1 = st\<lparr>claims := (claims st)[i := claim1]\<rparr>
           in
             if status = Some ''paid'' then
               (case findById (users st1) (c_user claim1) of
                  None \<Rightarrow> (Inl InternalFailure, st1)
                | Some user \<Rightarrow>
                  (case save_user st1 (c_user claim1)
                          (user\<lparr>totalEarnings := totalEarnings user + c_amount claim1\<rparr>) of
                     None \<Rightarrow> (Inl InternalFailure, st1)
                   | Some st2 \<Rightarrow> (Inr claim1, st2)))
             else if status = Some ''rejected'' then
               (case findById (users st1) (c_user claim1) of
                  None \<Rightarrow> (Inl InternalFailure, st1)
                | Some user \<Rightarrow>
                  (case save_user st1 (c_user claim1)
                          (user\<lparr>points := points user + c_points claim1,
                                claimedMilestones :=
                                  remove_ms (claimedMilestones user) (c_points claim1)\<rparr>) of
                     None \<Rightarrow> (Inl InternalFailure, st1)
                   | Some st2 \<Rightarrow> (Inr claim1, st2)))
             else (Inr claim1, st1)))"

subsection \<open>Point credit and debit of the content controllers\<close>

text \<open>
  \<^verbatim>\<open>User.findByIdAndUpdate(id, { $inc: { points: d } }, { new: true, runValidators: true })\<close>:
  the updated document, or \<^verbatim>\<open>null\<close>. Update validators do not apply to
  \<^verbatim>\<open>$inc\<close>, so the result may be negative; the callers below repair that themselves.
\<close>

definition findByIdAndUpdate_inc :: "store \<Rightarrow> uid \<Rightarrow> int \<Rightarrow> user_doc option \<times> store" where
  "findByIdAndUpdate_inc st i d =
     (case findById (users st) i of
        None \<Rightarrow> (None, st)
      | Some u \<Rightarrow>
        let u1 = u\<lparr>points := points u + d\<rparr>
        in (Some u1, st\<lparr>users := (users st)[i := u1]\<rparr>))"

text \<open>\<^verbatim>\<open>User.findByIdAndUpdate(id, { points: v })\<close>.\<close>

definition findByIdAndUpdate_points :: "store \<Rightarrow> uid \<Rightarrow> int \<Rightarrow> store" where
  "findByIdAndUpdate_points st i v =
     (case findById (users st) i of
        None \<Rightarrow> st
      | Some u \<Rightarrow> st\<lparr>users := (users st)[i := u\<lparr>points := v\<rparr>]\<rparr>)"

text \<open>
  \<^verbatim>\<open>createJob\<close>, as far as it touches the ledger; \<^verbatim>\<open>createBlog\<close>,
  \<^verbatim>\<open>createResource\<close> and \<^verbatim>\<open>createProduct\<close> repeat its text. The acting user
  \<^verbatim>\<open>req.user\<close> was loaded by \<^verbatim>\<open>protect\<close>, which answers 401 when there is no such
  user. \<open>created\<close> tells whether \<^verbatim>\<open>Job.create\<close> went through; when it throws the
  handler answers 500 before any point is credited. An error inside the inner
  \<^verbatim>\<open>try\<close> is logged and the handler still answers 201.
\<close>

definition createJob :: "store \<Rightarrow> uid \<Rightarrow> bool \<Rightarrow> (error + unit) \<times> store" where
  "createJob st actor created =
     (case findById (users st) actor of
        None \<Rightarrow> (Inl Unauthorized, st)
      | Some req_user \<Rightarrow>
        if \<not> created then (Inl InternalFailure, st)
        else if role req_user \<noteq> super_admin
        then (Inr (), snd (findByIdAndUpdate_inc st actor 1))
        else (Inr (), st))"

text \<open>
  The debit shared by the four delete handlers:
  \<^verbatim>\<open>$inc: { points: -1 }\<close>, then \<^verbatim>\<open>if (updatedUser.points < 0)\<close> the balance is set
  to 0. A missing user makes \<^verbatim>\<open>updatedUser.points\<close> throw inside the inner
  \<^verbatim>\<open>try\<close>, which only logs.
\<close>

definition deduct_point :: "store \<Rightarrow> uid \<Rightarrow> store" where
  "deduct_point st postedBy =
     (case findByIdAndUpdate_inc st postedBy (- 1) of
        (None, st1) \<Rightarrow> st1
      | (Some updatedUser, st1) \<Rightarrow>
        if points updatedUser < 0 then findByIdAndUpdate_points st1 postedBy 0 else st1)"

text \<open>
  \<^verbatim>\<open>deleteJob\<close>; \<^verbatim>\<open>deleteBlog\<close> and \<^verbatim>\<open>deleteResource\<close> repeat its text.
  \<open>entry\<close> is the \<^verbatim>\<open>postedBy\<close> of the document found, \<open>None\<close> when there is none.
  A super admin deletes for good and returns early; a contributor marks the entry as
  deleted and pays one point.
\<close>

definition deleteJob :: "store \<Rightarrow> uid \<Rightarrow> uid option \<Rightarrow> (error + unit) \<times> store" where
  "deleteJob st actor entry =
     (case findById (users st) actor of
        None \<Rightarrow> (Inl Unauthorized, st)
      | Some req_user \<Rightarrow>
        (case entry of
           None \<Rightarrow> (Inl EntryNotFound, st)
         | Some postedBy \<Rightarrow>
           if postedBy \<noteq> actor \<and> role req_user \<noteq> super_admin then (Inl Forbidden, st)
           else if role req_user = super_admin then (Inr (), st)
           else if role req_user \<noteq> super_admin then (Inr (), deduct_point st postedBy)
           else (Inr (), st)))"

text \<open>\<^verbatim>\<open>deleteProduct\<close>: the same without the early return of the super admin.\<close>

definition deleteProduct :: "store \<Rightarrow> uid \<Rightarrow> uid option \<Rightarrow> (error + unit) \<times> store" where
  "deleteProduct st actor entry =
     (case findById (users st) actor of
        None \<Rightarrow> (Inl Unauthorized, st)
      | Some req_user \<Rightarrow>
        (case entry of
           None \<Rightarrow> (Inl EntryNotFound, st)
         | Some postedBy \<Rightarrow>
           if postedBy \<noteq> actor \<and> role req_user \<noteq> super_admin then (Inl Forbidden, st)
           else if role req_user \<noteq> super_admin then (Inr (), deduct_point st postedBy)
           else (Inr (), st)))"

subsection \<open>Sequences of requests\<close>

datatype op =
  RequestClaim uid int string js_string
  | ResolveClaim cid "string option" "string option" "string option" uid nat
  | CreateEntry uid bool
  | DeleteEntry uid "uid option"
  | DeleteProduct uid "uid option"

fun step :: "store \<Rightarrow> op \<Rightarrow> store" where
  "step st (RequestClaim u p pm pd) = snd (createClaim st u p pm pd)"
| "step st (ResolveClaim i status tx nts processor now) =
     snd (updateClaim st i status tx nts processor now)"
| "step st (CreateEntry actor created) = snd (createJob st actor created)"
| "step st (DeleteEntry actor entry) = snd (deleteJob st actor entry)"
| "step st (DeleteProduct actor entry) = snd (deleteProduct st actor entry)"

definition run :: "store \<Rightarrow> op list \<Rightarrow> store" where
  "run st ops = foldl step st ops"

text \<open>The pending claims of a user.\<close>

definition pendingClaims :: "claim_doc list \<Rightarrow> uid \<Rightarrow> claim_doc list" where
  "pendingClaims cs u = filter (\<lambda>c. c_user c = u \<and> c_status c = Pending) cs"

text \<open>
  The two invariants of the data model, as executable tests of a store: every owner
  of a claim has at most one pending claim, and no balance is negative.
\<close>

definition one_pending :: "store \<Rightarrow> bool" where
  "one_pending st = list_all (\<lambda>c. length (pendingClaims (claims st) (c_user c)) \<le> 1) (claims st)"

definition points_nonneg :: "store \<Rightarrow> bool" where
  "points_nonneg st = list_all (\<lambda>u. 0 \<le> points u) (users st)"

text \<open>A resolution that does not ask for \<^verbatim>\<open>pending\<close>.\<close>

fun forward :: "op \<Rightarrow> bool" where
  "forward (ResolveClaim i status tx nts processor now) = (status \<noteq> Some ''pending'')"
| "forward _ = True"

subsection \<open>Example stores\<close>

text \<open>
  The scenario of the specification: one contributor with 30 points and no milestone
  claimed, and the store after the claim of milestone 25 has gone through.
\<close>

text \<open>The payment details \<^verbatim>\<open>a@b\<close>.\<close>

definition ex_details :: js_string where
  "ex_details = [0x61, 0x40, 0x62]"

definition ex_user :: user_doc where
  "ex_user = \<lparr>role = job_poster, points = 30, totalEarnings = 0, claimedMilestones = Some []\<rparr>"

definition ex_store :: store where
  "ex_store = \<lparr>users = [ex_user], claims = []\<rparr>"

definition ex_claim :: claim_doc where
  "ex_claim = \<lparr>c_user = 0, c_points = 25, c_amount = 30,
                c_paymentMethod = ''upi'', c_paymentDetails = ex_details,
                c_status = Pending, c_transactionId = [], c_notes = [],
                c_processedBy = None, c_processedAt = None\<rparr>"

definition ex_store1 :: store where
  "ex_store1 = \<lparr>users = [ex_user\<lparr>points := 5, claimedMilestones := Some [25]\<rparr>],
                 claims = [ex_claim]\<rparr>"

text \<open>
  The same contributor with 40 points; with 15 points left and the claim of
  milestone 25 pending; and with no point at all.
\<close>

definition ex_store40 :: store where
  "ex_store40 = \<lparr>users = [ex_user\<lparr>points := 40\<rparr>], claims = []\<rparr>"

definition ex_store2 :: store where
  "ex_store2 = \<lparr>users = [ex_user\<lparr>points := 15, claimedMilestones := Some [25]\<rparr>],
                 claims = [ex_claim]\<rparr>"

definition ex_store0 :: store where
  "ex_store0 = \<lparr>users = [ex_user\<lparr>points := 0\<rparr>], claims = []\<rparr>"

text \<open>The claim of the scenario after it was paid by user 1 at time 5.\<close>

definition ex_paid :: store where
  "ex_paid = \<lparr>users = [ex_user\<lparr>points := 5, totalEarnings := 30,
                                  claimedMilestones := Some [25]\<rparr>],
               claims = [ex_claim\<lparr>c_status := Paid, c_processedBy := Some 1,
                                  c_processedAt := Some 5\<rparr>]\<rparr>"

text \<open>
  A contributor who has milestone 10 claimed and paid already: before and after the
  claim of milestone 25.
\<close>

definition ex_claim10 :: claim_doc where
  "ex_claim10 = \<lparr>c_user = 0, c_points = 10, c_amount = 15,
                  c_paymentMethod = ''upi'', c_paymentDetails = ex_details,
                  c_status = Paid, c_transactionId = [], c_notes = [],
                  c_processedBy = Some 1, c_processedAt = Some 3\<rparr>"

definition ex_earlier :: store where
  "ex_earlier = \<lparr>users = [ex_user\<lparr>totalEarnings := 15, claimedMilestones := Some [10]\<rparr>],
                  claims = [ex_claim10]\<rparr>"

definition ex_earlier1 :: store where
  "ex_earlier1 = \<lparr>users = [ex_user\<lparr>points := 5, totalEarnings := 15,
                                     claimedMilestones := Some [10, 25]\<rparr>],
                   claims = [ex_claim10, ex_claim]\<rparr>"

section \<open>Properties\<close>

subsection \<open>Auxiliary facts\<close>

lemmas ledger_defs =
  createClaim_def updateClaim_def validMilestones_def findById_def includes_ms_def
  push_ms_def remove_ms_def findOnePending_def Claim_create_def trim_def is_space_def
  save_user_def falsy_def or_else_def status_of_string_def assign_status_def Let_def

lemmas content_defs =
  createJob_def deleteJob_def deleteProduct_def deduct_point_def
  findByIdAndUpdate_inc_def findByIdAndUpdate_points_def

lemma validMilestones_Some:
  "validMilestones p = Some a \<Longrightarrow>
     p \<in> {10, 25, 50, 100} \<and> a = (if p = 10 then 15 else if p = 25 then 30 else if p = 50 then 60 else 120)"
  by (auto simp: validMilestones_def split: if_splits)

lemma validMilestones_pos: "validMilestones p = Some a \<Longrightarrow> 0 < p"
  by (auto simp: validMilestones_def split: if_splits)

lemma Claim_create_valid:
  "validMilestones p = Some a \<Longrightarrow>
   Claim_create cs u p a pm pd =
     (if pm \<in> set [''upi'', ''phone''] \<and> trim pd \<noteq> []
      then Some (length cs,
        cs @ [\<lparr>c_user = u, c_points = p, c_amount = a,
               c_paymentMethod = pm, c_paymentDetails = trim pd,
               c_status = Pending, c_transactionId = [], c_notes = [],
               c_processedBy = None, c_processedAt = None\<rparr>])
      else None)"
  by (auto simp: Claim_create_def validMilestones_def split: if_splits)

lemma createClaim_Inl: "createClaim st u p pm pd = (Inl e, st') \<Longrightarrow> st' = st"
  by (auto simp: createClaim_def Let_def save_user_def Claim_create_valid
      split: option.splits if_splits prod.splits)

lemma createClaim_Inr:
  assumes "createClaim st u p pm pd = (Inr i, st')"
  shows "\<exists>user amount.
      findById (users st) u = Some user \<and> validMilestones p = Some amount
      \<and> \<not> includes_ms (claimedMilestones user) p \<and> p \<le> points user
      \<and> findOnePending (claims st) u = None
      \<and> pm \<in> set [''upi'', ''phone''] \<and> trim pd \<noteq> []
      \<and> i = length (claims st)
      \<and> claims st' = claims st @ [\<lparr>c_user = u, c_points = p, c_amount = amount,
               c_paymentMethod = pm, c_paymentDetails = trim pd,
               c_status = Pending, c_transactionId = [], c_notes = [],
               c_processedBy = None, c_processedAt = None\<rparr>]
      \<and> users st' = (users st)[u := user\<lparr>points := points user - p,
              claimedMilestones := push_ms (claimedMilestones user) p\<rparr>]"
  using assms
  by (auto simp: createClaim_def Let_def save_user_def Claim_create_valid
      split: option.splits if_splits prod.splits)

lemma assign_status_Pending:
  "assign_status status cur = Some Pending \<Longrightarrow> status \<noteq> Some ''pending'' \<Longrightarrow> cur = Pending"
  by (auto simp: assign_status_def status_of_string_def split: option.splits if_splits)

lemma updateClaim_claims:
  "claims (snd (updateClaim st i status tx nts pr now)) = claims st
   \<or> (\<exists>claim s. findById (claims st) i = Some claim
         \<and> assign_status status (c_status claim) = Some s
         \<and> claims (snd (updateClaim st i status tx nts pr now)) =
             (claims st)[i := claim\<lparr>c_status := s,
                               c_transactionId := or_else tx (c_transactionId claim),
                               c_notes := or_else nts (c_notes claim),
                               c_processedBy := Some pr,
                               c_processedAt := Some now\<rparr>])"
  by (auto simp: updateClaim_def Let_def save_user_def split: option.splits if_splits)

lemma updateClaim_users:
  "users (snd (updateClaim st i status tx nts pr now)) = users st
   \<or> (\<exists>claim user. findById (claims st) i = Some claim
         \<and> findById (users st) (c_user claim) = Some user
         \<and> ((status = Some ''paid'' \<and> 0 \<le> points user
              \<and> users (snd (updateClaim st i status tx nts pr now)) =
                 (users st)[c_user claim := user\<lparr>totalEarnings := totalEarnings user + c_amount claim\<rparr>])
            \<or> (status = Some ''rejected'' \<and> 0 \<le> points user + c_points claim
              \<and> users (snd (updateClaim st i status tx nts pr now)) =
                 (users st)[c_user claim := user\<lparr>points := points user + c_points claim,
                      claimedMilestones := remove_ms (claimedMilestones user) (c_points claim)\<rparr>])))"
  by (auto simp: updateClaim_def Let_def save_user_def split: option.splits if_splits)

lemma length_filter_update_le:
  "i < length xs \<Longrightarrow> (P y \<Longrightarrow> P (xs ! i)) \<Longrightarrow>
     length (filter P (xs[i := y])) \<le> length (filter P xs)"
proof (induction xs arbitrary: i)
  case Nil
  then show ?case by simp
next
  case (Cons x xs)
  show ?case
  proof (cases i)
    case 0
    with Cons.prems show ?thesis by auto
  next
    case (Suc j)
    with Cons.prems have "length (filter P (xs[j := y])) \<le> length (filter P xs)"
      by (intro Cons.IH) auto
    with Suc show ?thesis by simp
  qed
qed

lemma one_pending_iff:
  "one_pending st \<longleftrightarrow> (\<forall>u. length (pendingClaims (claims st) u) \<le> 1)"
proof
  assume h: "one_pending st"
  show "\<forall>u. length (pendingClaims (claims st) u) \<le> 1"
  proof
    fix u
    show "length (pendingClaims (claims st) u) \<le> 1"
    proof (cases "pendingClaims (claims st) u")
      case Nil
      then show ?thesis by simp
    next
      case (Cons c cs)
      then have "c \<in> set (pendingClaims (claims st) u)" by simp
      then have "c \<in> set (claims st)" and "c_user c = u"
        by (auto simp: pendingClaims_def)
      with h show ?thesis by (auto simp: one_pending_def list_all_iff)
    qed
  qed
next
  assume "\<forall>u. length (pendingClaims (claims st) u) \<le> 1"
  then show "one_pending st" by (simp add: one_pending_def list_all_iff)
qed

lemma findOnePending_None:
  "findOnePending cs u = None \<Longrightarrow> pendingClaims cs u = []"
  by (auto simp: findOnePending_def pendingClaims_def find_None_iff filter_empty_conv)

lemma createClaim_pending:
  "length (pendingClaims (claims st) v) \<le> 1 \<Longrightarrow>
   length (pendingClaims (claims (snd (createClaim st u p pm pd))) v) \<le> 1"
proof (cases "createClaim st u p pm pd")
  case (Pair r st')
  assume h: "length (pendingClaims (claims st) v) \<le> 1"
  show ?thesis
  proof (cases r)
    case (Inl e)
    with Pair have "st' = st" by (simp add: createClaim_Inl)
    with Pair h show ?thesis by simp
  next
    case (Inr i)
    with Pair have "createClaim st u p pm pd = (Inr i, st')" by simp
    from createClaim_Inr [OF this] obtain c where
      "findOnePending (claims st) u = None" "claims st' = claims st @ [c]" "c_user c = u"
      by auto
    then have "pendingClaims (claims st') v =
        pendingClaims (claims st) v @ (if v = u \<and> c_status c = Pending then [c] else [])"
      and "pendingClaims (claims st) u = []"
      by (auto simp: pendingClaims_def dest: findOnePending_None)
    with Pair h show ?thesis by auto
  qed
qed

lemma updateClaim_pending:
  assumes "status \<noteq> Some ''pending''"
  shows "length (pendingClaims (claims (snd (updateClaim st i status tx nts pr now))) v)
           \<le> length (pendingClaims (claims st) v)"
  using updateClaim_claims [of st i status tx nts pr now]
proof
  assume "claims (snd (updateClaim st i status tx nts pr now)) = claims st"
  then show ?thesis by simp
next
  assume "\<exists>claim s. findById (claims st) i = Some claim
         \<and> assign_status status (c_status claim) = Some s
         \<and> claims (snd (updateClaim st i status tx nts pr now)) =
             (claims st)[i := claim\<lparr>c_status := s,
                               c_transactionId := or_else tx (c_transactionId claim),
                               c_notes := or_else nts (c_notes claim),
                               c_processedBy := Some pr,
                               c_processedAt := Some now\<rparr>]"
  then obtain claim s where
    f: "findById (claims st) i = Some claim" and
    a: "assign_status status (c_status claim) = Some s" and
    c: "claims (snd (updateClaim st i status tx nts pr now)) =
             (claims st)[i := claim\<lparr>c_status := s,
                               c_transactionId := or_else tx (c_transactionId claim),
                               c_notes := or_else nts (c_notes claim),
                               c_processedBy := Some pr,
                               c_processedAt := Some now\<rparr>]"
    by blast
  from f have i: "i < length (claims st)" and n: "claims st ! i = claim"
    by (auto simp: findById_def split: if_splits)
  from a assms have "s = Pending \<Longrightarrow> c_status claim = Pending"
    by (auto dest: assign_status_Pending)
  with i n c show ?thesis
    unfolding pendingClaims_def c
    by (intro length_filter_update_le) auto
qed

lemma content_claims:
  "claims (snd (createJob st a b)) = claims st"
  "claims (snd (deleteJob st a e)) = claims st"
  "claims (snd (deleteProduct st a e)) = claims st"
  by (auto simp: createJob_def deleteJob_def deleteProduct_def deduct_point_def
      findByIdAndUpdate_inc_def findByIdAndUpdate_points_def Let_def
      split: option.splits if_splits prod.splits)

lemma step_pending:
  "forward x \<Longrightarrow> length (pendingClaims (claims st) v) \<le> 1 \<Longrightarrow>
     length (pendingClaims (claims (step st x)) v) \<le> 1"
proof (cases x)
  case (RequestClaim u p pm pd)
  assume "length (pendingClaims (claims st) v) \<le> 1"
  with RequestClaim createClaim_pending [of st v u p pm pd] show ?thesis by simp
next
  case (ResolveClaim i status tx nts pr now)
  assume "forward x" "length (pendingClaims (claims st) v) \<le> 1"
  with ResolveClaim updateClaim_pending [of status st i tx nts pr now v]
  show ?thesis by simp
qed (simp_all add: content_claims)

lemma run_pending:
  "list_all forward xs \<Longrightarrow> \<forall>v. length (pendingClaims (claims st) v) \<le> 1 \<Longrightarrow>
     length (pendingClaims (claims (run st xs)) v) \<le> 1"
  unfolding run_def
proof (induction xs arbitrary: st)
  case Nil
  then show ?case by simp
next
  case (Cons x xs)
  from Cons.prems have fx: "forward x" and fxs: "list_all forward xs"
    by simp_all
  from fx Cons.prems(2) have "\<forall>v. length (pendingClaims (claims (step st x)) v) \<le> 1"
    using step_pending by blast
  with Cons.IH [OF fxs] show ?case by simp
qed

lemma deduct_point_eq:
  "deduct_point st i =
     (case findById (users st) i of
        None \<Rightarrow> st
      | Some u \<Rightarrow> st\<lparr>users := (users st)[i := u\<lparr>points := max 0 (points u - 1)\<rparr>]\<rparr>)"
  by (auto simp: deduct_point_def findByIdAndUpdate_inc_def findByIdAndUpdate_points_def
      findById_def Let_def max_def split: option.splits)

lemma createJob_users:
  "users (snd (createJob st a b)) = users st
   \<or> (\<exists>u. findById (users st) a = Some u
        \<and> users (snd (createJob st a b)) = (users st)[a := u\<lparr>points := points u + 1\<rparr>])"
  by (auto simp: createJob_def findByIdAndUpdate_inc_def Let_def split: option.splits)

lemma deleteJob_users:
  "users (snd (deleteJob st a e)) = users st
   \<or> (\<exists>u. findById (users st) a = Some u \<and> e = Some a \<and> role u \<noteq> super_admin
        \<and> users (snd (deleteJob st a e)) = (users st)[a := u\<lparr>points := max 0 (points u - 1)\<rparr>])"
  by (auto simp: deleteJob_def deduct_point_eq split: option.splits)

lemma deleteProduct_users:
  "users (snd (deleteProduct st a e)) = users st
   \<or> (\<exists>u. findById (users st) a = Some u \<and> e = Some a \<and> role u \<noteq> super_admin
        \<and> users (snd (deleteProduct st a e)) = (users st)[a := u\<lparr>points := max 0 (points u - 1)\<rparr>])"
  by (auto simp: deleteProduct_def deduct_point_eq split: option.splits)

lemma list_all_update: "list_all P xs \<Longrightarrow> P y \<Longrightarrow> list_all P (xs[i := y])"
  using set_update_subset_insert [of xs i y] by (auto simp: list_all_iff)

lemma findById_mem: "findById xs i = Some x \<Longrightarrow> x \<in> set xs"
  by (auto simp: findById_def split: if_splits)

lemma createClaim_users:
  "users (snd (createClaim st u p pm pd)) = users st
   \<or> (\<exists>user. findById (users st) u = Some user \<and> p \<le> points user
        \<and> users (snd (createClaim st u p pm pd)) =
             (users st)[u := user\<lparr>points := points user - p,
                 claimedMilestones := push_ms (claimedMilestones user) p\<rparr>])"
proof (cases "createClaim st u p pm pd")
  case (Pair r st')
  show ?thesis
  proof (cases r)
    case (Inl e)
    with Pair show ?thesis by (auto dest: createClaim_Inl)
  next
    case (Inr i)
    with Pair have "createClaim st u p pm pd = (Inr i, st')" by simp
    from createClaim_Inr [OF this] Pair show ?thesis by auto
  qed
qed

lemma step_points_nonneg: "points_nonneg st \<Longrightarrow> points_nonneg (step st x)"
proof (cases x)
  case (RequestClaim u p pm pd)
  assume "points_nonneg st"
  with RequestClaim createClaim_users [of st u p pm pd] show ?thesis
    by (auto simp: points_nonneg_def intro!: list_all_update)
next
  case (ResolveClaim i status tx nts pr now)
  assume "points_nonneg st"
  with ResolveClaim updateClaim_users [of st i status tx nts pr now] show ?thesis
    by (auto simp: points_nonneg_def intro!: list_all_update)
next
  case (CreateEntry a b)
  assume h: "points_nonneg st"
  from createJob_users [of st a b] show ?thesis
  proof
    assume "users (snd (createJob st a b)) = users st"
    with h CreateEntry show ?thesis by (simp add: points_nonneg_def)
  next
    assume "\<exists>u. findById (users st) a = Some u
        \<and> users (snd (createJob st a b)) = (users st)[a := u\<lparr>points := points u + 1\<rparr>]"
    then obtain u where u: "findById (users st) a = Some u" and
      e: "users (snd (createJob st a b)) = (users st)[a := u\<lparr>points := points u + 1\<rparr>]"
      by blast
    from h findById_mem [OF u] have "0 \<le> points u"
      by (simp add: points_nonneg_def list_all_iff)
    with h e CreateEntry show ?thesis
      by (auto simp: points_nonneg_def intro!: list_all_update)
  qed
next
  case (DeleteEntry a e)
  assume "points_nonneg st"
  with DeleteEntry deleteJob_users [of st a e] show ?thesis
    by (auto simp: points_nonneg_def intro!: list_all_update)
next
  case (DeleteProduct a e)
  assume "points_nonneg st"
  with DeleteProduct deleteProduct_users [of st a e] show ?thesis
    by (auto simp: points_nonneg_def intro!: list_all_update)
qed

lemma run_points_nonneg: "points_nonneg st \<Longrightarrow> points_nonneg (run st xs)"
  unfolding run_def
  by (induction xs arbitrary: st) (simp_all add: step_points_nonneg)

lemma includes_push: "includes_ms ms m \<Longrightarrow> includes_ms (push_ms ms p) m"
  by (auto simp: includes_ms_def push_ms_def split: option.splits)

lemma includes_remove:
  "includes_ms ms m \<Longrightarrow> \<not> includes_ms (remove_ms ms p) m \<Longrightarrow> p = m"
  by (auto simp: includes_ms_def remove_ms_def split: option.splits)

lemma not_includes_remove: "\<not> includes_ms (remove_ms ms p) p"
  by (auto simp: includes_ms_def remove_ms_def split: option.splits)

lemma findById_Some_iff: "findById xs i = Some x \<longleftrightarrow> i < length xs \<and> xs ! i = x"
  by (auto simp: findById_def)

lemma step_keeps_milestone:
  assumes u: "findById (users st) u = Some user"
    and m: "includes_ms (claimedMilestones user) m"
    and u': "findById (users (step st x)) u = Some user'"
    and m': "\<not> includes_ms (claimedMilestones user') m"
  shows "\<exists>i tx nts pr now claim. x = ResolveClaim i (Some ''rejected'') tx nts pr now
           \<and> findById (claims st) i = Some claim \<and> c_user claim = u \<and> c_points claim = m"
proof (cases x)
  case (RequestClaim v p pm pd)
  with createClaim_users [of st v p pm pd] u m u' m' show ?thesis
    by (auto simp: findById_Some_iff nth_list_update includes_push split: if_splits)
next
  case (ResolveClaim i status tx nts pr now)
  with updateClaim_users [of st i status tx nts pr now] u m u' m' show ?thesis
    by (auto simp: findById_Some_iff nth_list_update split: if_splits dest: includes_remove)
next
  case (CreateEntry a b)
  with createJob_users [of st a b] u m u' m' show ?thesis
    by (auto simp: findById_Some_iff nth_list_update split: if_splits)
next
  case (DeleteEntry a e)
  with deleteJob_users [of st a e] u m u' m' show ?thesis
    by (auto simp: findById_Some_iff nth_list_update split: if_splits)
next
  case (DeleteProduct a e)
  with deleteProduct_users [of st a e] u m u' m' show ?thesis
    by (auto simp: findById_Some_iff nth_list_update split: if_splits)
qed

lemma updateClaim_falsy:
  assumes "findById (claims st) i = Some claim" "falsy status"
  shows "updateClaim st i status tx nts pr now =
     (Inr (claim\<lparr>c_transactionId := or_else tx (c_transactionId claim),
                  c_notes := or_else nts (c_notes claim),
                  c_processedBy := Some pr, c_processedAt := Some now\<rparr>),
      st\<lparr>claims := (claims st)[i := claim\<lparr>c_transactionId := or_else tx (c_transactionId claim),
                  c_notes := or_else nts (c_notes claim),
                  c_processedBy := Some pr, c_processedAt := Some now\<rparr>]\<rparr>)"
  using assms
  by (auto simp: updateClaim_def falsy_def assign_status_def Let_def split: option.splits)

lemma updateClaim_paid:
  assumes "findById (claims st) i = Some claim"
    and "findById (users st) (c_user claim) = Some user"
    and "0 \<le> points user"
  shows "updateClaim st i (Some ''paid'') tx nts pr now =
     (Inr (claim\<lparr>c_status := Paid,
                  c_transactionId := or_else tx (c_transactionId claim),
                  c_notes := or_else nts (c_notes claim),
                  c_processedBy := Some pr, c_processedAt := Some now\<rparr>),
      \<lparr>users = (users st)[c_user claim :=
                 user\<lparr>totalEarnings := totalEarnings user + c_amount claim\<rparr>],
       claims = (claims st)[i := claim\<lparr>c_status := Paid,
                  c_transactionId := or_else tx (c_transactionId claim),
                  c_notes := or_else nts (c_notes claim),
                  c_processedBy := Some pr, c_processedAt := Some now\<rparr>]\<rparr>)"
  using assms
  by (auto simp: updateClaim_def assign_status_def status_of_string_def Let_def
      save_user_def findById_def split: if_splits)

lemma updateClaim_rejected:
  assumes "findById (claims st) i = Some claim"
    and "findById (users st) (c_user claim) = Some user"
    and "0 \<le> points user + c_points claim"
  shows "updateClaim st i (Some ''rejected'') tx nts pr now =
     (Inr (claim\<lparr>c_status := Rejected,
                  c_transactionId := or_else tx (c_transactionId claim),
                  c_notes := or_else nts (c_notes claim),
                  c_processedBy := Some pr, c_processedAt := Some now\<rparr>),
      \<lparr>users = (users st)[c_user claim :=
                 user\<lparr>points := points user + c_points claim,
                      claimedMilestones :=
                        remove_ms (claimedMilestones user) (c_points claim)\<rparr>],
       claims = (claims st)[i := claim\<lparr>c_status := Rejected,
                  c_transactionId := or_else tx (c_transactionId claim),
                  c_notes := or_else nts (c_notes claim),
                  c_processedBy := Some pr, c_processedAt := Some now\<rparr>]\<rparr>)"
  using assms
  by (auto simp: updateClaim_def assign_status_def status_of_string_def Let_def
      save_user_def findById_def split: if_splits)

lemma updateClaim_to_pending:
  assumes "findById (claims st) i = Some claim"
  shows "updateClaim st i (Some ''pending'') tx nts pr now =
     (Inr (claim\<lparr>c_status := Pending,
                  c_transactionId := or_else tx (c_transactionId claim),
                  c_notes := or_else nts (c_notes claim),
                  c_processedBy := Some pr, c_processedAt := Some now\<rparr>),
      st\<lparr>claims := (claims st)[i := claim\<lparr>c_status := Pending,
                  c_transactionId := or_else tx (c_transactionId claim),
                  c_notes := or_else nts (c_notes claim),
                  c_processedBy := Some pr, c_processedAt := Some now\<rparr>]\<rparr>)"
  using assms
  by (simp add: updateClaim_def assign_status_def status_of_string_def Let_def)

lemma createClaim_ok:
  assumes "validMilestones p = Some amount"
    and "findById (users st) u = Some user"
    and "\<not> includes_ms (claimedMilestones user) p"
    and "p \<le> points user"
    and "findOnePending (claims st) u = None"
    and "pm \<in> set [''upi'', ''phone'']" and "trim pd \<noteq> []"
  shows "\<exists>st'. createClaim st u p pm pd = (Inr (length (claims st)), st')"
  using assms
  by (simp add: createClaim_def Claim_create_valid save_user_def Let_def)

lemma updateClaim_to_processing:
  assumes "findById (claims st) i = Some claim"
  shows "updateClaim st i (Some ''processing'') tx nts pr now =
     (Inr (claim\<lparr>c_status := Processing,
                  c_transactionId := or_else tx (c_transactionId claim),
                  c_notes := or_else nts (c_notes claim),
                  c_processedBy := Some pr, c_processedAt := Some now\<rparr>),
      st\<lparr>claims := (claims st)[i := claim\<lparr>c_status := Processing,
                  c_transactionId := or_else tx (c_transactionId claim),
                  c_notes := or_else nts (c_notes claim),
                  c_processedBy := Some pr, c_processedAt := Some now\<rparr>]\<rparr>)"
  using assms
  by (simp add: updateClaim_def assign_status_def status_of_string_def Let_def)

lemma updateClaim_paid_claims:
  assumes "findById (claims st) i = Some claim"
  shows "claims (snd (updateClaim st i (Some ''paid'') tx nts pr now)) =
     (claims st)[i := claim\<lparr>c_status := Paid,
                  c_transactionId := or_else tx (c_transactionId claim),
                  c_notes := or_else nts (c_notes claim),
                  c_processedBy := Some pr, c_processedAt := Some now\<rparr>]"
  using assms
  by (auto simp: updateClaim_def assign_status_def status_of_string_def Let_def
      save_user_def split: option.splits)

lemma updateClaim_rejected_claims:
  assumes "findById (claims st) i = Some claim"
  shows "claims (snd (updateClaim st i (Some ''rejected'') tx nts pr now)) =
     (claims st)[i := claim\<lparr>c_status := Rejected,
                  c_transactionId := or_else tx (c_transactionId claim),
                  c_notes := or_else nts (c_notes claim),
                  c_processedBy := Some pr, c_processedAt := Some now\<rparr>]"
  using assms
  by (auto simp: updateClaim_def assign_status_def status_of_string_def Let_def
      save_user_def split: option.splits)

lemma push_ms_eq:
  "push_ms ms p = Some ((case ms of None \<Rightarrow> [] | Some xs \<Rightarrow> xs) @ [p])"
  by (simp add: push_ms_def)

lemma remove_ms_eq:
  "remove_ms ms p = (case ms of None \<Rightarrow> None | Some xs \<Rightarrow> Some (filter (\<lambda>m. m \<noteq> p) xs))"
  by (simp add: remove_ms_def)

subsection \<open>Creating a claim\<close>

text \<open>
  Claim C1. Whatever the store, the user and the request, \<open>createClaim\<close> either fails
  and leaves the store as it was, or succeeds, and then: the milestone is one of 10,
  25, 50 and 100; one claim has been appended, pending, with the amount of the table
  (10 gives 15, 25 gives 30, 50 gives 60, 100 gives 120); the balance of the user has
  gone down by exactly the milestone and the total earnings are as before; and the
  milestone has been appended to the claimed milestones of the user, so that these
  are the milestone and the ones claimed before, no more and no less. Nothing else in
  the store has changed.
\<close>

theorem createClaim_all_or_nothing:
  assumes "createClaim st u p pm pd = (r, st')"
  shows "(\<forall>e. r = Inl e \<longrightarrow> st' = st) \<and>
    (\<forall>i. r = Inr i \<longrightarrow>
       p \<in> {10, 25, 50, 100} \<and> i = length (claims st) \<and>
       (\<exists>user. findById (users st) u = Some user \<and>
          claims st' = claims st @
            [\<lparr>c_user = u, c_points = p,
              c_amount = (if p = 10 then 15 else if p = 25 then 30
                          else if p = 50 then 60 else 120),
              c_paymentMethod = pm, c_paymentDetails = trim pd,
              c_status = Pending, c_transactionId = [], c_notes = [],
              c_processedBy = None, c_processedAt = None\<rparr>] \<and>
          users st' = (users st)[u := user\<lparr>points := points user - p,
              claimedMilestones := push_ms (claimedMilestones user) p\<rparr>] \<and>
          includes_ms (push_ms (claimedMilestones user) p) p \<and>
          (\<exists>user'. findById (users st') u = Some user'
             \<and> points user' = points user - p
             \<and> totalEarnings user' = totalEarnings user
             \<and> claimedMilestones user' =
                 Some ((case claimedMilestones user of None \<Rightarrow> [] | Some ms \<Rightarrow> ms) @ [p])
             \<and> (\<forall>m. (case claimedMilestones user' of None \<Rightarrow> False | Some ms \<Rightarrow> m \<in> set ms)
                   \<longleftrightarrow> (m = p \<or> (case claimedMilestones user of
                                        None \<Rightarrow> False | Some ms \<Rightarrow> m \<in> set ms))))))"
proof (intro conjI allI impI)
  fix e assume "r = Inl e"
  with assms show "st' = st" by (simp add: createClaim_Inl)
next
  fix i assume "r = Inr i"
  with assms have ok: "createClaim st u p pm pd = (Inr i, st')" by simp
  from createClaim_Inr [OF ok] obtain user amount where
    u: "findById (users st) u = Some user" and
    v: "validMilestones p = Some amount" and
    i: "i = length (claims st)" and
    c: "claims st' = claims st @ [\<lparr>c_user = u, c_points = p, c_amount = amount,
               c_paymentMethod = pm, c_paymentDetails = trim pd,
               c_status = Pending, c_transactionId = [], c_notes = [],
               c_processedBy = None, c_processedAt = None\<rparr>]" and
    w: "users st' = (users st)[u := user\<lparr>points := points user - p,
              claimedMilestones := push_ms (claimedMilestones user) p\<rparr>]"
    by blast
  from validMilestones_Some [OF v] show "p \<in> {10, 25, 50, 100}" by simp
  from i show "i = length (claims st)" .
  have inc: "includes_ms (push_ms (claimedMilestones user) p) p"
    by (simp add: includes_ms_def push_ms_def)
  from u w have u': "findById (users st') u =
      Some (user\<lparr>points := points user - p,
              claimedMilestones := push_ms (claimedMilestones user) p\<rparr>)"
    by (simp add: findById_Some_iff)
  have frame: "\<exists>user'. findById (users st') u = Some user'
             \<and> points user' = points user - p
             \<and> totalEarnings user' = totalEarnings user
             \<and> claimedMilestones user' =
                 Some ((case claimedMilestones user of None \<Rightarrow> [] | Some ms \<Rightarrow> ms) @ [p])
             \<and> (\<forall>m. (case claimedMilestones user' of None \<Rightarrow> False | Some ms \<Rightarrow> m \<in> set ms)
                   \<longleftrightarrow> (m = p \<or> (case claimedMilestones user of
                                        None \<Rightarrow> False | Some ms \<Rightarrow> m \<in> set ms)))"
    unfolding u' by (auto simp: push_ms_eq split: option.splits)
  from u c w inc frame validMilestones_Some [OF v]
  show "\<exists>user. findById (users st) u = Some user \<and>
          claims st' = claims st @
            [\<lparr>c_user = u, c_points = p,
              c_amount = (if p = 10 then 15 else if p = 25 then 30
                          else if p = 50 then 60 else 120),
              c_paymentMethod = pm, c_paymentDetails = trim pd,
              c_status = Pending, c_transactionId = [], c_notes = [],
              c_processedBy = None, c_processedAt = None\<rparr>] \<and>
          users st' = (users st)[u := user\<lparr>points := points user - p,
              claimedMilestones := push_ms (claimedMilestones user) p\<rparr>] \<and>
          includes_ms (push_ms (claimedMilestones user) p) p \<and>
          (\<exists>user'. findById (users st') u = Some user'
             \<and> points user' = points user - p
             \<and> totalEarnings user' = totalEarnings user
             \<and> claimedMilestones user' =
                 Some ((case claimedMilestones user of None \<Rightarrow> [] | Some ms \<Rightarrow> ms) @ [p])
             \<and> (\<forall>m. (case claimedMilestones user' of None \<Rightarrow> False | Some ms \<Rightarrow> m \<in> set ms)
                   \<longleftrightarrow> (m = p \<or> (case claimedMilestones user of
                                        None \<Rightarrow> False | Some ms \<Rightarrow> m \<in> set ms))))"
    by simp
qed

text \<open>
  A contributor with 30 points who has milestone 10 claimed already claims
  milestone 25: the new claim is appended after the old one, 5 points remain, and the
  claimed milestones are 10 and 25.
\<close>

theorem createClaim_all_or_nothing_witness:
  "createClaim ex_earlier 0 25 ''upi'' ex_details = (Inr 1, ex_earlier1)
   \<and> claims ex_earlier1 = claims ex_earlier @ [ex_claim]
   \<and> findById (users ex_earlier1) 0 =
       Some (ex_user\<lparr>points := 5, totalEarnings := 15, claimedMilestones := Some [10, 25]\<rparr>)
   \<and> claimedMilestones (users ex_earlier ! 0) = Some [10]"
  using createClaim_all_or_nothing [of ex_earlier 0 25 "''upi''" ex_details "Inr 1" ex_earlier1]
  by (simp add: ledger_defs ex_details_def ex_user_def ex_claim_def ex_claim10_def
      ex_earlier_def ex_earlier1_def)

text \<open>
  Payment details that consist of a no-break space only are empty once trimmed:
  the claim is refused by its schema and nothing is written.
\<close>

lemma createClaim_blank_details:
  "createClaim ex_store 0 25 ''upi'' [0xA0] = (Inl InternalFailure, ex_store)"
  by (simp add: ledger_defs ex_user_def ex_store_def)

subsection \<open>At most one pending claim\<close>

text \<open>
  Against claim C2 as it is worded. A contributor with 40 points claims milestone 25;
  the claim is moved to \<^verbatim>\<open>processing\<close>; the contributor claims milestone 10; the
  first claim is then set back to \<^verbatim>\<open>pending\<close>, which \<open>updateClaim\<close> accepts. The
  contributor now holds two pending claims. And in the store of the scenario, where
  a claim is pending and 5 points are left, a request for milestone 50 is answered
  with the message of the balance check, not with that of the pending check.
\<close>

theorem two_pending_counterexample:
  "length (pendingClaims (claims (run ex_store40
      [RequestClaim 0 25 ''upi'' ex_details,
       ResolveClaim 0 (Some ''processing'') None None 1 5,
       RequestClaim 0 10 ''upi'' ex_details,
       ResolveClaim 0 (Some ''pending'') None None 1 6])) 0) = 2
   \<and> pendingClaims (claims ex_store1) 0 \<noteq> []
   \<and> fst (createClaim ex_store1 0 50 ''upi'' ex_details) = Inl InsufficientBalance"
  by (simp add: ledger_defs
      run_def pendingClaims_def ex_details_def ex_user_def ex_store_def ex_claim_def ex_store1_def ex_store40_def)

text \<open>
  Claim C2, amended. From a store in which every contributor has at most one pending
  claim, every sequence of requests in which no resolution asks for the status
  \<^verbatim>\<open>pending\<close> leads to a store in which contributor \<open>u\<close> has at most one pending
  claim. While \<open>u\<close> has a pending claim, every \<open>createClaim\<close> of \<open>u\<close> fails and leaves
  the store as it was; the failure is the one of the pending check as soon as the
  three earlier checks pass (a milestone of the table, not yet claimed, covered by the
  balance).
\<close>

theorem one_pending_forward:
  assumes "one_pending st" and "list_all forward xs"
  shows "length (pendingClaims (claims (run st xs)) u) \<le> 1 \<and>
    (pendingClaims (claims st) u \<noteq> [] \<longrightarrow>
       (\<exists>e. createClaim st u p pm pd = (Inl e, st)) \<and>
       (validMilestones p \<noteq> None \<and>
        (\<exists>user. findById (users st) u = Some user
           \<and> \<not> includes_ms (claimedMilestones user) p \<and> p \<le> points user)
        \<longrightarrow> createClaim st u p pm pd = (Inl ClaimAlreadyPending, st)))"
proof (intro conjI impI)
  from assms(1) have "\<forall>v. length (pendingClaims (claims st) v) \<le> 1"
    by (simp add: one_pending_iff)
  with assms(2) show "length (pendingClaims (claims (run st xs)) u) \<le> 1"
    by (rule run_pending)
next
  assume ne: "pendingClaims (claims st) u \<noteq> []"
  then have f: "findOnePending (claims st) u \<noteq> None"
    using findOnePending_None by blast
  show "\<exists>e. createClaim st u p pm pd = (Inl e, st)"
  proof (cases "createClaim st u p pm pd")
    case (Pair r st')
    show ?thesis
    proof (cases r)
      case (Inl e)
      with Pair show ?thesis by (auto dest: createClaim_Inl)
    next
      case (Inr i)
      with Pair have "createClaim st u p pm pd = (Inr i, st')" by simp
      from createClaim_Inr [OF this] f show ?thesis by auto
    qed
  qed
next
  assume ne: "pendingClaims (claims st) u \<noteq> []"
    and h: "validMilestones p \<noteq> None \<and>
        (\<exists>user. findById (users st) u = Some user
           \<and> \<not> includes_ms (claimedMilestones user) p \<and> p \<le> points user)"
  from ne have "findOnePending (claims st) u \<noteq> None"
    using findOnePending_None by blast
  with h show "createClaim st u p pm pd = (Inl ClaimAlreadyPending, st)"
    by (auto simp: createClaim_def)
qed

text \<open>
  With 15 points left and the claim of milestone 25 pending: the request for
  milestone 10 passes the three earlier checks and is stopped by the pending check.
\<close>

theorem one_pending_forward_witness:
  "one_pending ex_store2
   \<and> list_all forward [ResolveClaim 0 (Some ''processing'') None None 1 5,
                        RequestClaim 0 10 ''upi'' ex_details]
   \<and> length (pendingClaims (claims (run ex_store2
        [ResolveClaim 0 (Some ''processing'') None None 1 5,
         RequestClaim 0 10 ''upi'' ex_details])) 0) \<le> 1
   \<and> pendingClaims (claims ex_store2) 0 \<noteq> []
   \<and> createClaim ex_store2 0 10 ''upi'' ex_details = (Inl ClaimAlreadyPending, ex_store2)"
  using one_pending_forward [of ex_store2
      "[ResolveClaim 0 (Some ''processing'') None None 1 5, RequestClaim 0 10 ''upi'' ex_details]"
      0 10 "''upi''" ex_details]
  by (simp add: ledger_defs
      run_def pendingClaims_def one_pending_def ex_details_def ex_user_def ex_claim_def ex_store2_def)

subsection \<open>A claimed milestone\<close>

text \<open>
  Claim C3. While \<open>m\<close> is among the claimed milestones of contributor \<open>u\<close>, every
  \<open>createClaim\<close> of \<open>u\<close> for \<open>m\<close> fails and leaves the whole store, hence the claimed
  milestones and the balance, as it was; for each of the milestones 10, 25, 50 and
  100 the failure is the one of the already-claimed check. The only request after
  which \<open>m\<close> is no longer among the claimed milestones of \<open>u\<close> is a resolution to
  \<^verbatim>\<open>rejected\<close> of a claim of \<open>u\<close> for \<open>m\<close>.
\<close>

theorem claimed_milestone_blocks:
  assumes "findById (users st) u = Some user"
    and "includes_ms (claimedMilestones user) m"
  shows "(\<exists>e. createClaim st u m pm pd = (Inl e, st)) \<and>
    (m \<in> {10, 25, 50, 100} \<longrightarrow> createClaim st u m pm pd = (Inl AlreadyClaimed, st)) \<and>
    (\<forall>x user'. findById (users (step st x)) u = Some user'
        \<and> \<not> includes_ms (claimedMilestones user') m \<longrightarrow>
        (\<exists>i tx nts pr now claim.
            x = ResolveClaim i (Some ''rejected'') tx nts pr now
            \<and> findById (claims st) i = Some claim
            \<and> c_user claim = u \<and> c_points claim = m))"
proof (intro conjI impI allI)
  from assms show "\<exists>e. createClaim st u m pm pd = (Inl e, st)"
    by (auto simp: createClaim_def split: option.splits)
next
  assume "m \<in> {10, 25, 50, 100}"
  then have "validMilestones m \<noteq> None" by (auto simp: validMilestones_def)
  with assms show "createClaim st u m pm pd = (Inl AlreadyClaimed, st)"
    by (auto simp: createClaim_def)
next
  fix x user'
  assume "findById (users (step st x)) u = Some user'
        \<and> \<not> includes_ms (claimedMilestones user') m"
  with assms show "\<exists>i tx nts pr now claim.
            x = ResolveClaim i (Some ''rejected'') tx nts pr now
            \<and> findById (claims st) i = Some claim
            \<and> c_user claim = u \<and> c_points claim = m"
    by (intro step_keeps_milestone) auto
qed

text \<open>
The store of the scenario, milestone 25, and the rejection of its claim.
\<close>

theorem claimed_milestone_blocks_witness:
  "findById (users ex_store1) 0 = Some (ex_user\<lparr>points := 5, claimedMilestones := Some [25]\<rparr>)
   \<and> includes_ms (Some [25]) 25
   \<and> createClaim ex_store1 0 25 ''upi'' ex_details = (Inl AlreadyClaimed, ex_store1)
   \<and> \<not> includes_ms (claimedMilestones
          (users (step ex_store1 (ResolveClaim 0 (Some ''rejected'') None None 1 5)) ! 0)) 25"
  using claimed_milestone_blocks [of ex_store1 0
      "ex_user\<lparr>points := 5, claimedMilestones := Some [25]\<rparr>" 25 "''upi''" ex_details]
  by (simp add: ledger_defs
      ex_details_def ex_user_def ex_store_def ex_claim_def ex_store1_def)

subsection \<open>Resolving a claim\<close>

text \<open>
  Claim C4. For a stored claim whose owner exists with a balance that is not
  negative, and whose milestone is one of the table (the claim schema admits no
  other), \<open>updateClaim\<close> with the status \<^verbatim>\<open>rejected\<close> succeeds, adds exactly the points
  of the claim to the balance of the owner, leaves the total earnings as they were,
  and removes the milestone of the claim, and no other, from the claimed milestones
  of the owner. The owner can then claim the same milestone again: with no claim of
  the owner pending and valid payment data the request succeeds.
\<close>

theorem updateClaim_rejected_refunds:
  assumes c: "findById (claims st) i = Some claim"
    and u: "findById (users st) (c_user claim) = Some user"
    and n: "0 \<le> points user"
    and v: "validMilestones (c_points claim) \<noteq> None"
    and r: "updateClaim st i (Some ''rejected'') tx nts pr now = (r, st')"
  shows "(\<exists>claim1. r = Inr claim1 \<and> c_status claim1 = Rejected) \<and>
    users st' = (users st)[c_user claim :=
        user\<lparr>points := points user + c_points claim,
             claimedMilestones := remove_ms (claimedMilestones user) (c_points claim)\<rparr>] \<and>
    \<not> includes_ms (remove_ms (claimedMilestones user) (c_points claim)) (c_points claim) \<and>
    (\<exists>user'. findById (users st') (c_user claim) = Some user'
       \<and> points user' = points user + c_points claim
       \<and> totalEarnings user' = totalEarnings user
       \<and> claimedMilestones user' =
           (case claimedMilestones user of
              None \<Rightarrow> None
            | Some ms \<Rightarrow> Some (filter (\<lambda>m. m \<noteq> c_points claim) ms))
       \<and> (\<forall>m. (case claimedMilestones user' of None \<Rightarrow> False | Some ms \<Rightarrow> m \<in> set ms)
             \<longleftrightarrow> (m \<noteq> c_points claim
                  \<and> (case claimedMilestones user of
                        None \<Rightarrow> False | Some ms \<Rightarrow> m \<in> set ms)))) \<and>
    (findOnePending (claims st') (c_user claim) = None
       \<and> pm \<in> set [''upi'', ''phone''] \<and> trim pd \<noteq> [] \<longrightarrow>
     (\<exists>j st2. createClaim st' (c_user claim) (c_points claim) pm pd = (Inr j, st2)))"
proof -
  from v obtain amount where a: "validMilestones (c_points claim) = Some amount"
    by auto
  from validMilestones_pos [OF a] n have "0 \<le> points user + c_points claim"
    by simp
  from updateClaim_rejected [OF c u this, of tx nts pr now] r
  have res: "r = Inr (claim\<lparr>c_status := Rejected,
                  c_transactionId := or_else tx (c_transactionId claim),
                  c_notes := or_else nts (c_notes claim),
                  c_processedBy := Some pr, c_processedAt := Some now\<rparr>)"
    and us: "users st' = (users st)[c_user claim :=
        user\<lparr>points := points user + c_points claim,
             claimedMilestones := remove_ms (claimedMilestones user) (c_points claim)\<rparr>]"
    by auto
  from u us have u': "findById (users st') (c_user claim) =
      Some (user\<lparr>points := points user + c_points claim,
             claimedMilestones := remove_ms (claimedMilestones user) (c_points claim)\<rparr>)"
    by (simp add: findById_Some_iff)
  have frame: "\<exists>user'. findById (users st') (c_user claim) = Some user'
       \<and> points user' = points user + c_points claim
       \<and> totalEarnings user' = totalEarnings user
       \<and> claimedMilestones user' =
           (case claimedMilestones user of
              None \<Rightarrow> None
            | Some ms \<Rightarrow> Some (filter (\<lambda>m. m \<noteq> c_points claim) ms))
       \<and> (\<forall>m. (case claimedMilestones user' of None \<Rightarrow> False | Some ms \<Rightarrow> m \<in> set ms)
             \<longleftrightarrow> (m \<noteq> c_points claim
                  \<and> (case claimedMilestones user of
                        None \<Rightarrow> False | Some ms \<Rightarrow> m \<in> set ms)))"
    unfolding u' by (auto simp: remove_ms_eq split: option.splits)
  have again: "\<exists>j st2. createClaim st' (c_user claim) (c_points claim) pm pd = (Inr j, st2)"
    if "findOnePending (claims st') (c_user claim) = None"
      and "pm \<in> set [''upi'', ''phone'']" and "trim pd \<noteq> []"
    using createClaim_ok [OF a u' _ _ that] n by (auto simp: not_includes_remove)
  from res have first: "\<exists>claim1. r = Inr claim1 \<and> c_status claim1 = Rejected"
    by simp
  from first us frame again show ?thesis
    by (simp add: not_includes_remove)
qed

text \<open>
  The contributor who has claimed milestones 10 and 25: the pending claim of
  milestone 25 is rejected, the balance is back at 30, milestone 10 stays claimed,
  and milestone 25 is claimed again.
\<close>

theorem updateClaim_rejected_refunds_witness:
  "findById (claims ex_earlier1) 1 = Some ex_claim
   \<and> findById (users ex_earlier1) (c_user ex_claim) =
       Some (ex_user\<lparr>points := 5, totalEarnings := 15, claimedMilestones := Some [10, 25]\<rparr>)
   \<and> validMilestones (c_points ex_claim) \<noteq> None
   \<and> updateClaim ex_earlier1 1 (Some ''rejected'') None None 1 5 =
       (Inr (ex_claim\<lparr>c_status := Rejected, c_processedBy := Some 1, c_processedAt := Some 5\<rparr>),
        \<lparr>users = [ex_user\<lparr>totalEarnings := 15, claimedMilestones := Some [10]\<rparr>],
         claims = [ex_claim10,
                   ex_claim\<lparr>c_status := Rejected, c_processedBy := Some 1,
                            c_processedAt := Some 5\<rparr>]\<rparr>)
   \<and> createClaim \<lparr>users = [ex_user\<lparr>totalEarnings := 15, claimedMilestones := Some [10]\<rparr>],
         claims = [ex_claim10,
                   ex_claim\<lparr>c_status := Rejected, c_processedBy := Some 1,
                            c_processedAt := Some 5\<rparr>]\<rparr> 0 25 ''upi'' ex_details =
       (Inr 2,
        \<lparr>users = [ex_user\<lparr>points := 5, totalEarnings := 15,
                            claimedMilestones := Some [10, 25]\<rparr>],
         claims = [ex_claim10,
                   ex_claim\<lparr>c_status := Rejected, c_processedBy := Some 1,
                            c_processedAt := Some 5\<rparr>, ex_claim]\<rparr>)"
  using updateClaim_rejected_refunds [of ex_earlier1 1 ex_claim
      "ex_user\<lparr>points := 5, totalEarnings := 15, claimedMilestones := Some [10, 25]\<rparr>"
      None None 1 5
      "Inr (ex_claim\<lparr>c_status := Rejected, c_processedBy := Some 1, c_processedAt := Some 5\<rparr>)"
      "\<lparr>users = [ex_user\<lparr>totalEarnings := 15, claimedMilestones := Some [10]\<rparr>],
         claims = [ex_claim10,
                   ex_claim\<lparr>c_status := Rejected, c_processedBy := Some 1,
                            c_processedAt := Some 5\<rparr>]\<rparr>" "''upi''" ex_details]
  by (simp add: ledger_defs ex_details_def ex_user_def ex_claim_def ex_claim10_def
      ex_earlier1_def)

text \<open>
  Claim C5. For a stored claim whose owner exists with a balance that is not
  negative, \<open>updateClaim\<close> with the status \<^verbatim>\<open>paid\<close> succeeds, adds exactly the amount
  of the claim to the total earnings of the owner and leaves the balance and the
  claimed milestones of the owner as they were.
\<close>

theorem updateClaim_paid_credits:
  assumes c: "findById (claims st) i = Some claim"
    and u: "findById (users st) (c_user claim) = Some user"
    and n: "0 \<le> points user"
    and r: "updateClaim st i (Some ''paid'') tx nts pr now = (r, st')"
  shows "(\<exists>claim1. r = Inr claim1 \<and> c_status claim1 = Paid) \<and>
    (\<exists>user'. findById (users st') (c_user claim) = Some user'
       \<and> totalEarnings user' = totalEarnings user + c_amount claim
       \<and> points user' = points user
       \<and> claimedMilestones user' = claimedMilestones user) \<and>
    users st' = (users st)[c_user claim :=
        user\<lparr>totalEarnings := totalEarnings user + c_amount claim\<rparr>]"
  using updateClaim_paid [OF c u n, of tx nts pr now] r u
  by (auto simp: findById_Some_iff)

text \<open>
The claim of the scenario is paid: 30 is credited, 5 points remain.
\<close>

theorem updateClaim_paid_credits_witness:
  "findById (claims ex_store1) 0 = Some ex_claim
   \<and> findById (users ex_store1) (c_user ex_claim) =
       Some (ex_user\<lparr>points := 5, claimedMilestones := Some [25]\<rparr>)
   \<and> updateClaim ex_store1 0 (Some ''paid'') None None 1 5 =
       (Inr (ex_claim\<lparr>c_status := Paid, c_processedBy := Some 1, c_processedAt := Some 5\<rparr>),
        ex_paid)
   \<and> users ex_paid = [ex_user\<lparr>points := 5, totalEarnings := 30,
                                claimedMilestones := Some [25]\<rparr>]"
  using updateClaim_paid_credits [of ex_store1 0 ex_claim
      "ex_user\<lparr>points := 5, claimedMilestones := Some [25]\<rparr>" None None 1 5
      "Inr (ex_claim\<lparr>c_status := Paid, c_processedBy := Some 1, c_processedAt := Some 5\<rparr>)"
      ex_paid]
  by (simp add: ledger_defs
      ex_details_def ex_user_def ex_store_def ex_claim_def ex_store1_def ex_paid_def)

text \<open>
  Against claim C6 as it is worded. The claim of the scenario is already paid and
  30 has been credited. A second \<open>updateClaim\<close> with the status \<^verbatim>\<open>paid\<close> is accepted
  and the total earnings stand at 60.
\<close>

theorem paid_twice_counterexample:
  "c_status (claims ex_paid ! 0) = Paid
   \<and> totalEarnings (users ex_paid ! 0) = 30
   \<and> fst (updateClaim ex_paid 0 (Some ''paid'') None None 1 6) =
       Inr (ex_claim\<lparr>c_status := Paid, c_processedBy := Some 1, c_processedAt := Some 6\<rparr>)
   \<and> totalEarnings (users (snd (updateClaim ex_paid 0 (Some ''paid'') None None 1 6)) ! 0) = 60"
  by (simp add: ledger_defs
      ex_details_def ex_user_def ex_claim_def ex_paid_def)

text \<open>
  Claim C6, amended. For a claim that is already paid, whose owner exists with a
  balance that is not negative, a repeated \<open>updateClaim\<close> with the status \<^verbatim>\<open>paid\<close>
  is accepted, the claim stays paid, and the amount of the claim is added to the
  total earnings of the owner once more.
\<close>

theorem updateClaim_paid_again:
  assumes c: "findById (claims st) i = Some claim"
    and p: "c_status claim = Paid"
    and u: "findById (users st) (c_user claim) = Some user"
    and n: "0 \<le> points user"
    and r: "updateClaim st i (Some ''paid'') tx nts pr now = (r, st')"
  shows "(\<exists>claim1. r = Inr claim1 \<and> c_status claim1 = Paid) \<and>
    (\<exists>user'. findById (users st') (c_user claim) = Some user'
       \<and> totalEarnings user' = totalEarnings user + c_amount claim)"
  using updateClaim_paid [OF c u n, of tx nts pr now] r u
  by (auto simp: findById_Some_iff)

text \<open>
The paid claim of the scenario, paid again.
\<close>

theorem updateClaim_paid_again_witness:
  "findById (claims ex_paid) 0 =
      Some (ex_claim\<lparr>c_status := Paid, c_processedBy := Some 1, c_processedAt := Some 5\<rparr>)
   \<and> findById (users ex_paid) 0 =
      Some (ex_user\<lparr>points := 5, totalEarnings := 30, claimedMilestones := Some [25]\<rparr>)
   \<and> fst (updateClaim ex_paid 0 (Some ''paid'') None None 1 6) =
       Inr (ex_claim\<lparr>c_status := Paid, c_processedBy := Some 1, c_processedAt := Some 6\<rparr>)
   \<and> findById (users (snd (updateClaim ex_paid 0 (Some ''paid'') None None 1 6))) 0 =
       Some (ex_user\<lparr>points := 5, totalEarnings := 30 + 30, claimedMilestones := Some [25]\<rparr>)"
  using updateClaim_paid_again [of ex_paid 0
      "ex_claim\<lparr>c_status := Paid, c_processedBy := Some 1, c_processedAt := Some 5\<rparr>"
      "ex_user\<lparr>points := 5, totalEarnings := 30, claimedMilestones := Some [25]\<rparr>"
      None None 1 6
      "fst (updateClaim ex_paid 0 (Some ''paid'') None None 1 6)"
      "snd (updateClaim ex_paid 0 (Some ''paid'') None None 1 6)"]
  by (simp add: ledger_defs
      ex_details_def ex_user_def ex_claim_def ex_paid_def)

text \<open>
  Against claim C7 as it is worded. The claim of the scenario is paid; an
  \<open>updateClaim\<close> with the status \<^verbatim>\<open>pending\<close> is accepted and the claim is pending
  again.
\<close>

theorem updateClaim_pending_counterexample:
  "c_status (claims ex_paid ! 0) = Paid
   \<and> fst (updateClaim ex_paid 0 (Some ''pending'') None None 1 6) =
       Inr (ex_claim\<lparr>c_status := Pending, c_processedBy := Some 1, c_processedAt := Some 6\<rparr>)
   \<and> c_status (claims (snd (updateClaim ex_paid 0 (Some ''pending'') None None 1 6)) ! 0)
       = Pending"
  by (simp add: ledger_defs
      ex_details_def ex_user_def ex_claim_def ex_paid_def)

text \<open>
  Claim C7, amended. For a stored claim, \<open>updateClaim\<close> checks the status against the
  enum of the schema only. A status that is supplied and is none of \<^verbatim>\<open>pending\<close>,
  \<^verbatim>\<open>processing\<close>, \<^verbatim>\<open>paid\<close> and \<^verbatim>\<open>rejected\<close> fails and leaves the whole store, hence
  the claim and the balances, as it was. Each of the four is accepted and written to
  the claim, together with the processor and the time:
  \<^item> \<^verbatim>\<open>pending\<close> and \<^verbatim>\<open>processing\<close> succeed and change nothing but the claim;
  \<^item> \<^verbatim>\<open>paid\<close> succeeds when the owner exists with a balance that is not negative,
    and then credits the amount of the claim to the total earnings of the owner;
  \<^item> \<^verbatim>\<open>rejected\<close> succeeds when the owner exists and the balance with the refund is
    not negative, and then refunds the points of the claim and takes its milestone
    out of the claimed milestones of the owner.
\<close>

theorem updateClaim_status_enum:
  assumes c: "findById (claims st) i = Some claim"
  shows "(\<not> falsy status
      \<and> status \<notin> {Some ''pending'', Some ''processing'', Some ''paid'', Some ''rejected''}
      \<longrightarrow> updateClaim st i status tx nts pr now = (Inl InternalFailure, st)) \<and>
    (\<exists>claim1. updateClaim st i (Some ''pending'') tx nts pr now =
        (Inr claim1, st\<lparr>claims := (claims st)[i := claim1]\<rparr>)
      \<and> c_status claim1 = Pending) \<and>
    updateClaim st i (Some ''pending'') tx nts pr now =
      (Inr (claim\<lparr>c_status := Pending,
                   c_transactionId := or_else tx (c_transactionId claim),
                   c_notes := or_else nts (c_notes claim),
                   c_processedBy := Some pr, c_processedAt := Some now\<rparr>),
       st\<lparr>claims := (claims st)[i := claim\<lparr>c_status := Pending,
                   c_transactionId := or_else tx (c_transactionId claim),
                   c_notes := or_else nts (c_notes claim),
                   c_processedBy := Some pr, c_processedAt := Some now\<rparr>]\<rparr>) \<and>
    updateClaim st i (Some ''processing'') tx nts pr now =
      (Inr (claim\<lparr>c_status := Processing,
                   c_transactionId := or_else tx (c_transactionId claim),
                   c_notes := or_else nts (c_notes claim),
                   c_processedBy := Some pr, c_processedAt := Some now\<rparr>),
       st\<lparr>claims := (claims st)[i := claim\<lparr>c_status := Processing,
                   c_transactionId := or_else tx (c_transactionId claim),
                   c_notes := or_else nts (c_notes claim),
                   c_processedBy := Some pr, c_processedAt := Some now\<rparr>]\<rparr>) \<and>
    claims (snd (updateClaim st i (Some ''paid'') tx nts pr now)) =
      (claims st)[i := claim\<lparr>c_status := Paid,
                   c_transactionId := or_else tx (c_transactionId claim),
                   c_notes := or_else nts (c_notes claim),
                   c_processedBy := Some pr, c_processedAt := Some now\<rparr>] \<and>
    (\<forall>user. findById (users st) (c_user claim) = Some user \<and> 0 \<le> points user \<longrightarrow>
       updateClaim st i (Some ''paid'') tx nts pr now =
         (Inr (claim\<lparr>c_status := Paid,
                      c_transactionId := or_else tx (c_transactionId claim),
                      c_notes := or_else nts (c_notes claim),
                      c_processedBy := Some pr, c_processedAt := Some now\<rparr>),
          \<lparr>users = (users st)[c_user claim :=
                     user\<lparr>totalEarnings := totalEarnings user + c_amount claim\<rparr>],
           claims = (claims st)[i := claim\<lparr>c_status := Paid,
                      c_transactionId := or_else tx (c_transactionId claim),
                      c_notes := or_else nts (c_notes claim),
                      c_processedBy := Some pr, c_processedAt := Some now\<rparr>]\<rparr>)) \<and>
    claims (snd (updateClaim st i (Some ''rejected'') tx nts pr now)) =
      (claims st)[i := claim\<lparr>c_status := Rejected,
                   c_transactionId := or_else tx (c_transactionId claim),
                   c_notes := or_else nts (c_notes claim),
                   c_processedBy := Some pr, c_processedAt := Some now\<rparr>] \<and>
    (\<forall>user. findById (users st) (c_user claim) = Some user
         \<and> 0 \<le> points user + c_points claim \<longrightarrow>
       updateClaim st i (Some ''rejected'') tx nts pr now =
         (Inr (claim\<lparr>c_status := Rejected,
                      c_transactionId := or_else tx (c_transactionId claim),
                      c_notes := or_else nts (c_notes claim),
                      c_processedBy := Some pr, c_processedAt := Some now\<rparr>),
          \<lparr>users = (users st)[c_user claim :=
                     user\<lparr>points := points user + c_points claim,
                          claimedMilestones :=
                            (case claimedMilestones user of
                               None \<Rightarrow> None
                             | Some ms \<Rightarrow> Some (filter (\<lambda>m. m \<noteq> c_points claim) ms))\<rparr>],
           claims = (claims st)[i := claim\<lparr>c_status := Rejected,
                      c_transactionId := or_else tx (c_transactionId claim),
                      c_notes := or_else nts (c_notes claim),
                      c_processedBy := Some pr, c_processedAt := Some now\<rparr>]\<rparr>))"
proof -
  have bad: "updateClaim st i status tx nts pr now = (Inl InternalFailure, st)"
    if "\<not> falsy status
      \<and> status \<notin> {Some ''pending'', Some ''processing'', Some ''paid'', Some ''rejected''}"
  proof -
    from that have "assign_status status (c_status claim) = None"
      by (auto simp: falsy_def assign_status_def status_of_string_def split: option.splits)
    with c show ?thesis by (simp add: updateClaim_def)
  qed
  note pending = updateClaim_to_pending [OF c, of tx nts pr now]
  note processing = updateClaim_to_processing [OF c, of tx nts pr now]
  note paid_claims = updateClaim_paid_claims [OF c, of tx nts pr now]
  note rejected_claims = updateClaim_rejected_claims [OF c, of tx nts pr now]
  have paid: "updateClaim st i (Some ''paid'') tx nts pr now =
         (Inr (claim\<lparr>c_status := Paid,
                      c_transactionId := or_else tx (c_transactionId claim),
                      c_notes := or_else nts (c_notes claim),
                      c_processedBy := Some pr, c_processedAt := Some now\<rparr>),
          \<lparr>users = (users st)[c_user claim :=
                     user\<lparr>totalEarnings := totalEarnings user + c_amount claim\<rparr>],
           claims = (claims st)[i := claim\<lparr>c_status := Paid,
                      c_transactionId := or_else tx (c_transactionId claim),
                      c_notes := or_else nts (c_notes claim),
                      c_processedBy := Some pr, c_processedAt := Some now\<rparr>]\<rparr>)"
    if "findById (users st) (c_user claim) = Some user \<and> 0 \<le> points user" for user
    using that updateClaim_paid [OF c, of user tx nts pr now] by simp
  have rejected: "updateClaim st i (Some ''rejected'') tx nts pr now =
         (Inr (claim\<lparr>c_status := Rejected,
                      c_transactionId := or_else tx (c_transactionId claim),
                      c_notes := or_else nts (c_notes claim),
                      c_processedBy := Some pr, c_processedAt := Some now\<rparr>),
          \<lparr>users = (users st)[c_user claim :=
                     user\<lparr>points := points user + c_points claim,
                          claimedMilestones :=
                            (case claimedMilestones user of
                               None \<Rightarrow> None
                             | Some ms \<Rightarrow> Some (filter (\<lambda>m. m \<noteq> c_points claim) ms))\<rparr>],
           claims = (claims st)[i := claim\<lparr>c_status := Rejected,
                      c_transactionId := or_else tx (c_transactionId claim),
                      c_notes := or_else nts (c_notes claim),
                      c_processedBy := Some pr, c_processedAt := Some now\<rparr>]\<rparr>)"
    if "findById (users st) (c_user claim) = Some user
         \<and> 0 \<le> points user + c_points claim" for user
    using that updateClaim_rejected [OF c, of user tx nts pr now]
    by (simp add: remove_ms_eq)
  from pending have pending': "\<exists>claim1. updateClaim st i (Some ''pending'') tx nts pr now =
        (Inr claim1, st\<lparr>claims := (claims st)[i := claim1]\<rparr>)
      \<and> c_status claim1 = Pending"
    by simp
  show ?thesis
    apply (intro conjI allI impI)
           apply (erule bad)
          apply (rule pending')
         apply (rule pending)
        apply (rule processing)
       apply (rule paid_claims)
      apply (erule paid)
     apply (rule rejected_claims)
    apply (erule rejected)
    done
qed

text \<open>
  The pending claim of the contributor who has claimed milestones 10 and 25: an
  unknown status is refused, and each of the four statuses of the enum is accepted.
\<close>

theorem updateClaim_status_enum_witness:
  "findById (claims ex_earlier1) 1 = Some ex_claim
   \<and> \<not> falsy (Some ''done'')
   \<and> Some ''done'' \<notin> {Some ''pending'', Some ''processing'', Some ''paid'', Some ''rejected''}
   \<and> updateClaim ex_earlier1 1 (Some ''done'') None None 1 6 = (Inl InternalFailure, ex_earlier1)
   \<and> updateClaim ex_earlier1 1 (Some ''pending'') None None 1 6 =
       (Inr (ex_claim\<lparr>c_processedBy := Some 1, c_processedAt := Some 6\<rparr>),
        ex_earlier1\<lparr>claims := [ex_claim10,
           ex_claim\<lparr>c_processedBy := Some 1, c_processedAt := Some 6\<rparr>]\<rparr>)
   \<and> updateClaim ex_earlier1 1 (Some ''processing'') None None 1 6 =
       (Inr (ex_claim\<lparr>c_status := Processing, c_processedBy := Some 1,
                      c_processedAt := Some 6\<rparr>),
        ex_earlier1\<lparr>claims := [ex_claim10,
           ex_claim\<lparr>c_status := Processing, c_processedBy := Some 1,
                    c_processedAt := Some 6\<rparr>]\<rparr>)
   \<and> findById (users ex_earlier1) (c_user ex_claim) =
       Some (ex_user\<lparr>points := 5, totalEarnings := 15, claimedMilestones := Some [10, 25]\<rparr>)
   \<and> updateClaim ex_earlier1 1 (Some ''paid'') None None 1 6 =
       (Inr (ex_claim\<lparr>c_status := Paid, c_processedBy := Some 1, c_processedAt := Some 6\<rparr>),
        \<lparr>users = [ex_user\<lparr>points := 5, totalEarnings := 45,
                            claimedMilestones := Some [10, 25]\<rparr>],
         claims = [ex_claim10,
           ex_claim\<lparr>c_status := Paid, c_processedBy := Some 1, c_processedAt := Some 6\<rparr>]\<rparr>)
   \<and> updateClaim ex_earlier1 1 (Some ''rejected'') None None 1 6 =
       (Inr (ex_claim\<lparr>c_status := Rejected, c_processedBy := Some 1,
                      c_processedAt := Some 6\<rparr>),
        \<lparr>users = [ex_user\<lparr>points := 30, totalEarnings := 15,
                            claimedMilestones := Some [10]\<rparr>],
         claims = [ex_claim10,
           ex_claim\<lparr>c_status := Rejected, c_processedBy := Some 1,
                    c_processedAt := Some 6\<rparr>]\<rparr>)"
  using updateClaim_status_enum [of ex_earlier1 1 ex_claim "Some ''done''" None None 1 6]
  by (simp add: ledger_defs ex_details_def ex_user_def ex_claim_def ex_claim10_def
      ex_earlier1_def)

text \<open>
  Claim C10. For a stored claim, \<open>updateClaim\<close> with no status (an absent or empty
  field) succeeds, keeps the status of the claim, sets \<^verbatim>\<open>processedBy\<close> to the caller
  and \<^verbatim>\<open>processedAt\<close> to the time of the call, and changes no user.
\<close>

theorem updateClaim_no_status:
  assumes c: "findById (claims st) i = Some claim"
    and f: "falsy status"
  shows "\<exists>claim1. updateClaim st i status tx nts pr now =
        (Inr claim1, st\<lparr>claims := (claims st)[i := claim1]\<rparr>)
      \<and> c_status claim1 = c_status claim
      \<and> c_processedBy claim1 = Some pr \<and> c_processedAt claim1 = Some now
      \<and> users (snd (updateClaim st i status tx nts pr now)) = users st"
  using updateClaim_falsy [OF c f, of tx nts pr now] by simp

text \<open>
The paid claim of the scenario, touched by user 2 at time 9.
\<close>

theorem updateClaim_no_status_witness:
  "findById (claims ex_paid) 0 =
      Some (ex_claim\<lparr>c_status := Paid, c_processedBy := Some 1, c_processedAt := Some 5\<rparr>)
   \<and> falsy None
   \<and> updateClaim ex_paid 0 None None None 2 9 =
       (Inr (ex_claim\<lparr>c_status := Paid, c_processedBy := Some 2, c_processedAt := Some 9\<rparr>),
        ex_paid\<lparr>claims := [ex_claim\<lparr>c_status := Paid, c_processedBy := Some 2,
                                       c_processedAt := Some 9\<rparr>]\<rparr>)
   \<and> users (snd (updateClaim ex_paid 0 None None None 2 9)) = users ex_paid"
  using updateClaim_no_status [of ex_paid 0
      "ex_claim\<lparr>c_status := Paid, c_processedBy := Some 1, c_processedAt := Some 5\<rparr>"
      None None None 2 9]
  by (simp add: ledger_defs ex_details_def ex_user_def ex_claim_def ex_paid_def)

subsection \<open>The scenario of the second request\<close>

text \<open>
  Against claim C8 as it is worded. After the claim of milestone 25 the request for
  milestone 10 is not answered with the failure of the pending check.
\<close>

theorem second_claim_counterexample:
  "createClaim ex_store 0 25 ''upi'' ex_details = (Inr 0, ex_store1)
   \<and> fst (createClaim ex_store1 0 10 ''upi'' ex_details) \<noteq> Inl ClaimAlreadyPending"
  by (simp add: ledger_defs
      ex_details_def ex_user_def ex_store_def ex_claim_def ex_store1_def)

text \<open>
  Claim C8, amended. With 30 points and no milestone claimed, the request for
  milestone 25 succeeds and leaves 5 points, milestone 25 claimed and one pending
  claim of amount 30. The request for milestone 10 that follows fails with the
  message of the balance check, which the handler runs before it looks for a pending
  claim, and leaves the store as it was.
\<close>

theorem scenario_second_claim:
  "points (users ex_store ! 0) = 30 \<and> claimedMilestones (users ex_store ! 0) = Some []
   \<and> createClaim ex_store 0 25 ''upi'' ex_details = (Inr 0, ex_store1)
   \<and> points (users ex_store1 ! 0) = 5
   \<and> claimedMilestones (users ex_store1 ! 0) = Some [25]
   \<and> pendingClaims (claims ex_store1) 0 = [ex_claim] \<and> c_amount ex_claim = 30
   \<and> createClaim ex_store1 0 10 ''upi'' ex_details = (Inl InsufficientBalance, ex_store1)"
  by (simp add: ledger_defs
      pendingClaims_def ex_details_def ex_user_def ex_store_def ex_claim_def ex_store1_def)

subsection \<open>No negative balance\<close>

text \<open>
  Claim C9. From a store without a negative balance, every sequence of requests
  (creation and deletion of entries, \<open>createClaim\<close>, \<open>updateClaim\<close>) leads to a store
  without a negative balance. A contributor who deletes an entry of their own pays
  one point and the balance stops at 0. \<open>createClaim\<close> changes the users only when
  the balance covers the milestone, and then by exactly the milestone.
\<close>

theorem points_never_negative:
  assumes "points_nonneg st"
  shows "points_nonneg (run st xs) \<and>
    (\<forall>actor u. findById (users st) actor = Some u \<and> role u \<noteq> super_admin \<longrightarrow>
       deleteJob st actor (Some actor) =
         (Inr (), st\<lparr>users := (users st)[actor := u\<lparr>points := max 0 (points u - 1)\<rparr>]\<rparr>)
       \<and> deleteProduct st actor (Some actor) =
         (Inr (), st\<lparr>users := (users st)[actor := u\<lparr>points := max 0 (points u - 1)\<rparr>]\<rparr>)) \<and>
    (\<forall>u p pm pd. users (snd (createClaim st u p pm pd)) \<noteq> users st \<longrightarrow>
       (\<exists>user. findById (users st) u = Some user \<and> p \<le> points user
          \<and> findById (users (snd (createClaim st u p pm pd))) u
              = Some (user\<lparr>points := points user - p,
                    claimedMilestones := push_ms (claimedMilestones user) p\<rparr>)))"
proof (intro conjI allI impI)
  from assms show "points_nonneg (run st xs)" by (rule run_points_nonneg)
next
  fix actor u
  assume "findById (users st) actor = Some u \<and> role u \<noteq> super_admin"
  then show "deleteJob st actor (Some actor) =
         (Inr (), st\<lparr>users := (users st)[actor := u\<lparr>points := max 0 (points u - 1)\<rparr>]\<rparr>)"
    by (simp add: deleteJob_def deduct_point_eq)
next
  fix actor u
  assume "findById (users st) actor = Some u \<and> role u \<noteq> super_admin"
  then show "deleteProduct st actor (Some actor) =
         (Inr (), st\<lparr>users := (users st)[actor := u\<lparr>points := max 0 (points u - 1)\<rparr>]\<rparr>)"
    by (simp add: deleteProduct_def deduct_point_eq)
next
  fix u p pm pd
  assume "users (snd (createClaim st u p pm pd)) \<noteq> users st"
  with createClaim_users [of st u p pm pd]
  show "\<exists>user. findById (users st) u = Some user \<and> p \<le> points user
          \<and> findById (users (snd (createClaim st u p pm pd))) u
              = Some (user\<lparr>points := points user - p,
                    claimedMilestones := push_ms (claimedMilestones user) p\<rparr>)"
    by (auto simp: findById_Some_iff)
qed

text \<open>
  A contributor without points creates and deletes entries; the contributor of the
  scenario claims milestone 25.
\<close>

theorem points_never_negative_witness:
  "points_nonneg ex_store0
   \<and> points_nonneg (run ex_store0
        [DeleteEntry 0 (Some 0), CreateEntry 0 True, DeleteProduct 0 (Some 0),
         DeleteEntry 0 (Some 0)])
   \<and> findById (users ex_store0) 0 = Some (ex_user\<lparr>points := 0\<rparr>)
   \<and> role (ex_user\<lparr>points := 0\<rparr>) \<noteq> super_admin
   \<and> deleteJob ex_store0 0 (Some 0) = (Inr (), ex_store0)
   \<and> points_nonneg ex_store
   \<and> users (snd (createClaim ex_store 0 25 ''upi'' ex_details)) \<noteq> users ex_store
   \<and> (25::int) \<le> points ex_user
   \<and> findById (users (snd (createClaim ex_store 0 25 ''upi'' ex_details))) 0
        = Some (ex_user\<lparr>points := 5, claimedMilestones := Some [25]\<rparr>)"
  using points_never_negative [of ex_store0
        "[DeleteEntry 0 (Some 0), CreateEntry 0 True, DeleteProduct 0 (Some 0),
          DeleteEntry 0 (Some 0)]"]
    points_never_negative [of ex_store "[]"]
  by (simp add: ledger_defs
      content_defs run_def points_nonneg_def ex_details_def ex_user_def ex_store_def ex_claim_def ex_store1_def ex_store0_def)

end
